theory Spec2Isabelle
  imports Complex_Main
begin

section \<open>The thermodynamics module of class\_zdrift: data model of thermodynamics.h\<close>

text \<open>
  A C \<^verbatim>\<open>double\<close> is a real number: every finite binary64 value is one. Where a
  property depends on how the arithmetic rounds (the smooth step macros), the operations
  are modelled twice: exactly, over \<^typ>\<open>real\<close>, and as binary64 operations, each
  rounded to the nearest representable value. A C \<^verbatim>\<open>short\<close> used as a flag is a
  \<^typ>\<open>bool\<close>, an \<^verbatim>\<open>enum\<close> is a datatype together with the integer the compiler
  gives each enumerator.
\<close>

subsection \<open>The configuration enumerations\<close>

text \<open>\<^verbatim>\<open>enum recombination_algorithm { recfast, hyrec };\<close>\<close>

datatype recombination_algorithm = recfast | hyrec

text \<open>
  \<^verbatim>\<open>enum reionization_parametrization {
    reio_none, reio_camb, reio_bins_tanh, reio_half_tanh, reio_many_tanh, reio_inter };\<close>
\<close>

datatype reionization_parametrization =
    reio_none
  | reio_camb
  | reio_bins_tanh
  | reio_half_tanh
  | reio_many_tanh
  | reio_inter

text \<open>\<^verbatim>\<open>enum reionization_z_or_tau { reio_z, reio_tau };\<close>\<close>

datatype reionization_z_or_tau = reio_z | reio_tau

text \<open>
  The integer value of each enumerator: C numbers the enumerators of an \<^verbatim>\<open>enum\<close>
  without initialisers from 0 in the order they are written.
\<close>

fun reionization_parametrization_value :: "reionization_parametrization \<Rightarrow> int" where
  "reionization_parametrization_value reio_none = 0"
| "reionization_parametrization_value reio_camb = 1"
| "reionization_parametrization_value reio_bins_tanh = 2"
| "reionization_parametrization_value reio_half_tanh = 3"
| "reionization_parametrization_value reio_many_tanh = 4"
| "reionization_parametrization_value reio_inter = 5"

text \<open>The enumerators in the order of the declaration.\<close>

definition reionization_parametrization_all :: "reionization_parametrization list" where
  "reionization_parametrization_all =
     [reio_none, reio_camb, reio_bins_tanh, reio_half_tanh, reio_many_tanh, reio_inter]"

text \<open>
  The options as the specification lists them on the configuration surface:
  ``reionization parametrization choice \{none, single-tanh, binned-tanh, multi-tanh,
  piecewise-linear\}''. This type follows the words of the specification, not the code.
\<close>

datatype spec_reionization_choice =
    spec_none
  | spec_single_tanh
  | spec_binned_tanh
  | spec_multi_tanh
  | spec_piecewise_linear

subsection \<open>The smooth step macros\<close>

text \<open>
  \<^verbatim>\<open>#define f1(x) (-0.75*x*(x*x/3.-1.)+0.5)\<close> and
  \<^verbatim>\<open>#define f2(x) (x*x*(0.5-x/3.)*6.)\<close>, read as functions of their argument.
  \<open>f1\<close> and \<open>f2\<close> are the real functions the two expressions denote, in exact
  arithmetic.
\<close>

definition f1 :: "real \<Rightarrow> real" where
  "f1 x = (- 0.75 * x * (x * x / 3 - 1) + 0.5)"

definition f2 :: "real \<Rightarrow> real" where
  "f2 x = (x * x * (0.5 - x / 3) * 6)"

subsection \<open>The smooth step macros in binary64 arithmetic\<close>

text \<open>
  The compiled macros work on \<^verbatim>\<open>double\<close>: IEEE 754 binary64, where every
  operation returns the representable value nearest to the exact result, ties going to
  the value whose significand is even. A finite binary64 value is \<open>m * 2\<^sup>q\<close> with
  \<open>\<bar>m\<bar> < 2\<^sup>5\<^sup>3\<close> and \<open>-1074 \<le> q\<close>.

  \<open>binary64_binade n x\<close> is the exponent \<open>e\<close> with \<open>2\<^sup>e \<le> x < 2\<^sup>e\<^sup>+\<^sup>1\<close> of a positive
  \<open>x\<close>, found by halving or doubling \<open>x\<close> at most \<open>n\<close> times.
\<close>

fun binary64_binade :: "nat \<Rightarrow> real \<Rightarrow> int" where
  "binary64_binade 0 x = 0"
| "binary64_binade (Suc n) x =
     (if 2 \<le> x then binary64_binade n (x / 2) + 1
      else if x < 1 then binary64_binade n (2 * x) - 1
      else 0)"

text \<open>Rounding a real number to the nearest integer, ties to the even one.\<close>

definition round_ties_even :: "real \<Rightarrow> int" where
  "round_ties_even y =
     (let f = \<lfloor>y\<rfloor>; d = y - of_int f in
      if d < 1 / 2 then f
      else if 1 / 2 < d then f + 1
      else if even f then f else f + 1)"

text \<open>
  The spacing of the binary64 values around \<open>x\<close>: \<open>2\<^sup>e\<^sup>-\<^sup>5\<^sup>2\<close> for \<open>x\<close> in the binade \<open>e\<close>,
  and \<open>2\<^sup>-\<^sup>1\<^sup>0\<^sup>7\<^sup>4\<close> for every \<open>x\<close> below \<open>2\<^sup>-\<^sup>1\<^sup>0\<^sup>2\<^sup>2\<close> (the subnormal range). The 1100
  steps of the search reach every exponent from \<open>-1100\<close> to \<open>1100\<close>, and a smaller
  exponent is raised to \<open>-1022\<close> in any case.
\<close>

definition binary64_ulp :: "real \<Rightarrow> real" where
  "binary64_ulp x = 2 powi (max (binary64_binade 1100 \<bar>x\<bar>) (- 1022) - 52)"

text \<open>
  The binary64 value nearest to \<open>x\<close>. Overflow is not modelled: a result of \<open>2\<^sup>1\<^sup>0\<^sup>2\<^sup>4\<close> or
  more in absolute value is infinite in C. On the windows \<open>[-1, 1]\<close> and \<open>[0, 1]\<close> of the
  macros every intermediate value is below 4.
\<close>

definition binary64_round :: "real \<Rightarrow> real" where
  "binary64_round x =
     (if x = 0 then 0 else binary64_ulp x * of_int (round_ties_even (x / binary64_ulp x)))"

text \<open>
  The macros as C evaluates them on a \<^verbatim>\<open>double\<close> \<open>x\<close>: by precedence and left
  associativity \<open>f1(x)\<close> is \<open>((-0.75 * x) * (((x * x) / 3.) - 1.)) + 0.5\<close> and \<open>f2(x)\<close> is
  \<open>((x * x) * (0.5 - (x / 3.))) * 6.\<close>, with every operation rounded on its own (no
  fused multiply-add, no wider intermediate format). The constants \<open>0.75\<close>, \<open>0.5\<close>, \<open>1\<close>,
  \<open>3\<close> and \<open>6\<close> are binary64 values. The argument \<open>x\<close> of the compiled macro is a
  binary64 value; the functions are defined for every real \<open>x\<close>, and what is proved for
  every real \<open>x\<close> of a window holds for every binary64 value in it.
\<close>

definition f1_binary64 :: "real \<Rightarrow> real" where
  "f1_binary64 x =
     binary64_round (binary64_round (binary64_round (- 0.75 * x)
         * binary64_round (binary64_round (binary64_round (x * x) / 3) - 1)) + 0.5)"

definition f2_binary64 :: "real \<Rightarrow> real" where
  "f2_binary64 x =
     binary64_round (binary64_round (binary64_round (x * x)
         * binary64_round (0.5 - binary64_round (x / 3))) * 6)"

subsection \<open>The energy injection parameters\<close>

text \<open>
  \<^verbatim>\<open>struct thermo_heating_parameters\<close>: the parameters of the annihilation and decay
  models, with the documentation of the header: \<open>annihilation\<close> is the value of
  \<open>F(z) = (f <sigma v> / m_cdm)(z)\<close> at \<open>annihilation_z\<close>; if \<open>annihilation_variation\<close> is
  non-zero, \<open>F\<close> is ``a parabola in log-log scale between zmin and zmax, with a
  curvature given by annihilation\_variation (must be negative), and with a maximum in
  zmax; it will be constant outside this range''.
\<close>

record thermo_heating_parameters =
  annihilation :: real
  annihilation_variation :: real
  annihilation_z :: real
  annihilation_zmax :: real
  annihilation_zmin :: real
  annihilation_f_halo :: real
  annihilation_z_halo :: real
  has_on_the_spot :: bool
  decay :: real

text \<open>
  Modelled from the spec: the body of \<^verbatim>\<open>thermodynamics_solve_energy_injection\<close> (and of
  \<^verbatim>\<open>thermodynamics_solve_onthespot_energy_injection\<close>) is not in the header, which only
  declares them. The annihilation profile \<open>F(z)\<close> below follows section 4.2 of the
  specification (``outside [zmin,zmax] the rate is held at its boundary value, inside it
  follows a parabola in log(1+z) vs log(rate)'') and the documentation of the fields
  above: inside the window \<open>ln F\<close> is a parabola in \<open>ln (1 + z)\<close> whose quadratic
  coefficient is \<open>annihilation_variation\<close>, whose vertex is at \<open>annihilation_zmax\<close> and
  which takes the value \<open>ln annihilation\<close> at \<open>annihilation_z\<close>.

  \<open>annihilation_log_ratio p z\<close> is \<open>ln (1 + z) - ln (1 + zmax)\<close>, the abscissa of the
  parabola measured from its vertex.
\<close>

definition annihilation_log_ratio :: "thermo_heating_parameters \<Rightarrow> real \<Rightarrow> real" where
  "annihilation_log_ratio p z = ln ((z + 1) / (annihilation_zmax p + 1))"

text \<open>
  Modelled from the spec: the parabolic profile, as it is inside the window (the
  function that computes it is not in the header).
\<close>

definition annihilation_parabola :: "thermo_heating_parameters \<Rightarrow> real \<Rightarrow> real" where
  "annihilation_parabola p z =
     annihilation p * exp (annihilation_variation p *
       ((annihilation_log_ratio p z)\<^sup>2 - (annihilation_log_ratio p (annihilation_z p))\<^sup>2))"

text \<open>
  Modelled from the spec: the annihilation rate at redshift \<open>z\<close> (the function that
  computes it is not in the header): the parabola inside the window, its value at
  \<open>zmax\<close> above the window and its value at \<open>zmin\<close> below.
\<close>

definition annihilation_rate :: "thermo_heating_parameters \<Rightarrow> real \<Rightarrow> real" where
  "annihilation_rate p z =
     (if annihilation_zmax p < z then annihilation_parabola p (annihilation_zmax p)
      else if annihilation_zmin p < z then annihilation_parabola p z
      else annihilation_parabola p (annihilation_zmin p))"

text \<open>
  Two closed forms used to state the results (they are not part of the program): the
  derivative of the parabola, and the derivative of the rate above \<open>zmin\<close>.
\<close>

definition annihilation_parabola_slope :: "thermo_heating_parameters \<Rightarrow> real \<Rightarrow> real" where
  "annihilation_parabola_slope p z =
     annihilation_parabola p z *
       (annihilation_variation p * (2 * annihilation_log_ratio p z / (z + 1)))"

definition annihilation_rate_slope :: "thermo_heating_parameters \<Rightarrow> real \<Rightarrow> real" where
  "annihilation_rate_slope p z = annihilation_parabola_slope p (min z (annihilation_zmax p))"

text \<open>
  A parameter set with \<open>zmin < zmax\<close> and a negative curvature, on which the results are
  evaluated.
\<close>

definition example_heating_parameters :: thermo_heating_parameters where
  "example_heating_parameters =
     \<lparr> annihilation = 1, annihilation_variation = - 1, annihilation_z = 1000,
       annihilation_zmax = 2500, annihilation_zmin = 30,
       annihilation_f_halo = 0, annihilation_z_halo = 30,
       has_on_the_spot = True, decay = 0 \<rparr>"

section \<open>The smooth steps\<close>

subsection \<open>The exact functions\<close>

lemma f1_has_derivative: "(f1 has_real_derivative (3 / 4 * (1 - x * x))) (at x)"
  unfolding f1_def
  by (auto intro!: derivative_eq_intros simp: field_simps)

lemma f2_has_derivative: "(f2 has_real_derivative (6 * x * (1 - x))) (at x)"
  unfolding f2_def
  by (auto intro!: derivative_eq_intros simp: field_simps)

lemma f1_slope_nonneg:
  fixes x :: real
  assumes "- 1 \<le> x" and "x \<le> 1"
  shows "0 \<le> 3 / 4 * (1 - x * x)"
proof -
  have "0 \<le> (1 - x) * (1 + x)"
    using assms by (intro mult_nonneg_nonneg) simp_all
  then show ?thesis by (simp add: algebra_simps)
qed

lemma f2_slope_nonneg:
  fixes x :: real
  assumes "0 \<le> x" and "x \<le> 1"
  shows "0 \<le> 6 * x * (1 - x)"
  using assms by (intro mult_nonneg_nonneg) simp_all

lemma f1_nondecreasing:
  assumes "- 1 \<le> x" and "x \<le> y" and "y \<le> 1"
  shows "f1 x \<le> f1 y"
proof (rule DERIV_nonneg_imp_nondecreasing [OF \<open>x \<le> y\<close>])
  fix t :: real
  assume "x \<le> t" and "t \<le> y"
  then have "- 1 \<le> t" and "t \<le> 1" using assms by simp_all
  then have "0 \<le> 3 / 4 * (1 - t * t)" by (rule f1_slope_nonneg)
  with f1_has_derivative [of t]
  show "\<exists>d. (f1 has_real_derivative d) (at t) \<and> 0 \<le> d" by blast
qed

lemma f2_nondecreasing:
  assumes "0 \<le> x" and "x \<le> y" and "y \<le> 1"
  shows "f2 x \<le> f2 y"
proof (rule DERIV_nonneg_imp_nondecreasing [OF \<open>x \<le> y\<close>])
  fix t :: real
  assume "x \<le> t" and "t \<le> y"
  then have "0 \<le> t" and "t \<le> 1" using assms by simp_all
  then have "0 \<le> 6 * t * (1 - t)" by (rule f2_slope_nonneg)
  with f2_has_derivative [of t]
  show "\<exists>d. (f2 has_real_derivative d) (at t) \<and> 0 \<le> d" by blast
qed

lemma f1_endpoints: "f1 (- 1) = 0" "f1 1 = 1"
  by (simp_all add: f1_def)

lemma f2_endpoints: "f2 0 = 0" "f2 1 = 1"
  by (simp_all add: f2_def)

lemma f1_derivative_endpoints:
  "(f1 has_real_derivative 0) (at (- 1))" "(f1 has_real_derivative 0) (at 1)"
  using f1_has_derivative [of "- 1"] f1_has_derivative [of 1] by simp_all

lemma f2_derivative_endpoints:
  "(f2 has_real_derivative 0) (at 0)" "(f2 has_real_derivative 0) (at 1)"
  using f2_has_derivative [of 0] f2_has_derivative [of 1] by simp_all

subsection \<open>Rounding to binary64\<close>

lemma two_powi_half: "(2::real) powi (e - 1) = 2 powi e / 2"
  by (simp add: power_int_diff)

lemma two_powi_double: "(2::real) powi (e + 1) = 2 * 2 powi e"
  by (simp add: power_int_add)

lemma two_powi_less_iff: "(2::real) powi a < 2 powi b \<longleftrightarrow> a < b"
proof
  assume "(2::real) powi a < 2 powi b"
  show "a < b"
  proof (rule ccontr)
    assume "\<not> a < b"
    then have "(2::real) powi b \<le> 2 powi a"
      by (intro power_int_increasing) simp_all
    with \<open>(2::real) powi a < 2 powi b\<close> show False by simp
  qed
next
  assume "a < b"
  then show "(2::real) powi a < 2 powi b"
    by (intro power_int_strict_increasing) simp_all
qed

lemma two_powi_le_iff: "(2::real) powi a \<le> 2 powi b \<longleftrightarrow> a \<le> b"
  using two_powi_less_iff [of b a] by (simp add: not_less [symmetric])

lemma binade_exact:
  assumes "2 powi e \<le> x" and "x < 2 powi (e + 1)" and "\<bar>e\<bar> \<le> int n"
  shows "binary64_binade n x = e"
  using assms
proof (induction n arbitrary: x e)
  case 0
  then show ?case by simp
next
  case (Suc n)
  consider "2 \<le> x" | "x < 1" | "1 \<le> x" "x < 2" by linarith
  then show ?case
  proof cases
    case 1
    have "(2::real) powi 1 < 2 powi (e + 1)"
      using 1 Suc.prems(2) by simp
    then have e: "1 \<le> e" by (simp only: two_powi_less_iff)
    have "binary64_binade n (x / 2) = e - 1"
    proof (rule Suc.IH)
      show "2 powi (e - 1) \<le> x / 2"
        using Suc.prems(1) by (simp add: two_powi_half)
      show "x / 2 < 2 powi (e - 1 + 1)"
        using Suc.prems(2) by (simp add: two_powi_double)
      show "\<bar>e - 1\<bar> \<le> int n" using e Suc.prems(3) by simp
    qed
    then show ?thesis using 1 by simp
  next
    case 2
    have "(2::real) powi e < 2 powi 0"
      using 2 Suc.prems(1) by simp
    then have e: "e < 0" by (simp only: two_powi_less_iff)
    have "binary64_binade n (2 * x) = e + 1"
    proof (rule Suc.IH)
      show "2 powi (e + 1) \<le> 2 * x"
        using Suc.prems(1) by (simp add: two_powi_double)
      show "2 * x < 2 powi (e + 1 + 1)"
        using Suc.prems(2) two_powi_double [of "e + 1"] two_powi_double [of e] by simp
      show "\<bar>e + 1\<bar> \<le> int n" using e Suc.prems(3) by simp
    qed
    then show ?thesis using 2 by simp
  next
    case 3
    have "(2::real) powi e < 2 powi 1"
      using 3 Suc.prems(1) by simp
    then have "e < 1" by (simp only: two_powi_less_iff)
    moreover have "(2::real) powi 0 < 2 powi (e + 1)"
      using 3 Suc.prems(2) by simp
    then have "0 < e + 1" by (simp only: two_powi_less_iff)
    ultimately have "e = 0" by simp
    then show ?thesis using 3 by simp
  qed
qed

lemma binade_upper:
  assumes "x < 2 powi k" and "1 - int n \<le> k"
  shows "binary64_binade n x \<le> k - 1"
  using assms
proof (induction n arbitrary: x k)
  case 0
  then show ?case by simp
next
  case (Suc n)
  consider "2 \<le> x" | "x < 1" | "1 \<le> x" "x < 2" by linarith
  then show ?case
  proof cases
    case 1
    have "binary64_binade n (x / 2) \<le> (k - 1) - 1"
    proof (rule Suc.IH)
      show "x / 2 < 2 powi (k - 1)" using Suc.prems(1) by (simp add: two_powi_half)
      have "(2::real) powi 1 < 2 powi k" using 1 Suc.prems(1) by simp
      then have "1 < k" by (simp only: two_powi_less_iff)
      then show "1 - int n \<le> k - 1" by simp
    qed
    then show ?thesis using 1 by simp
  next
    case 2
    have "binary64_binade n (2 * x) \<le> (k + 1) - 1"
    proof (rule Suc.IH)
      show "2 * x < 2 powi (k + 1)" using Suc.prems(1) by (simp add: two_powi_double)
      show "1 - int n \<le> k + 1" using Suc.prems(2) by simp
    qed
    then show ?thesis using 2 by simp
  next
    case 3
    have "(2::real) powi 0 < 2 powi k" using 3 Suc.prems(1) by simp
    then have "0 < k" by (simp only: two_powi_less_iff)
    then show ?thesis using 3 by simp
  qed
qed

lemma round_ties_even_error: "\<bar>of_int (round_ties_even y) - y\<bar> \<le> 1 / 2"
proof -
  have "of_int \<lfloor>y\<rfloor> \<le> y" and "y < of_int \<lfloor>y\<rfloor> + 1" by linarith+
  then show ?thesis
    by (auto simp: round_ties_even_def Let_def)
qed

lemma round_ties_even_near:
  assumes "\<bar>y - of_int m\<bar> < 1 / 2"
  shows "round_ties_even y = m"
proof -
  consider "of_int m \<le> y" | "y < of_int m" by linarith
  then show ?thesis
  proof cases
    case 1
    then have "\<lfloor>y\<rfloor> = m" using assms by (intro floor_unique) linarith+
    then show ?thesis using 1 assms by (simp add: round_ties_even_def Let_def)
  next
    case 2
    then have "of_int (m - 1) \<le> y" and "y < of_int (m - 1) + 1"
      using 2 assms by simp_all
    then have "\<lfloor>y\<rfloor> = m - 1" by (rule floor_unique)
    then show ?thesis using 2 assms by (simp add: round_ties_even_def Let_def)
  qed
qed

lemma round_ties_even_tie_up:
  assumes "y = of_int m - 1 / 2" and "even m"
  shows "round_ties_even y = m"
proof -
  have "\<lfloor>y\<rfloor> = m - 1" using assms(1) by (intro floor_unique) simp_all
  then show ?thesis using assms by (simp add: round_ties_even_def Let_def)
qed

lemma round_ties_even_tie_down:
  assumes "y = of_int m + 1 / 2" and "even m"
  shows "round_ties_even y = m"
proof -
  have "\<lfloor>y\<rfloor> = m" using assms(1) by (intro floor_unique) simp_all
  then show ?thesis using assms by (simp add: round_ties_even_def Let_def)
qed

lemma binary64_ulp_pos: "0 < binary64_ulp x"
  by (simp add: binary64_ulp_def)

lemma binary64_ulp_eq:
  assumes "2 powi e \<le> \<bar>x\<bar>" and "\<bar>x\<bar> < 2 powi (e + 1)" and "- 1022 \<le> e" and "e \<le> 1023"
  shows "binary64_ulp x = 2 powi (e - 52)"
proof -
  have "binary64_binade 1100 \<bar>x\<bar> = e"
    using assms by (intro binade_exact) simp_all
  then show ?thesis using assms(3) by (simp add: binary64_ulp_def)
qed

lemma binary64_ulp_upper:
  assumes "\<bar>x\<bar> < 2 powi k" and "- 1021 \<le> k"
  shows "binary64_ulp x \<le> 2 powi (k - 53)"
proof -
  have "binary64_binade 1100 \<bar>x\<bar> \<le> k - 1"
    using assms by (intro binade_upper) simp_all
  then have "max (binary64_binade 1100 \<bar>x\<bar>) (- 1022) - 52 \<le> k - 53"
    using assms(2) by simp
  then show ?thesis
    unfolding binary64_ulp_def by (simp only: two_powi_le_iff)
qed

lemma binary64_round_scaled:
  "\<bar>binary64_round x - x\<bar> \<le> binary64_ulp x / 2"
proof (cases "x = 0")
  case True
  then show ?thesis using binary64_ulp_pos [of x] by (simp add: binary64_round_def)
next
  case False
  let ?q = "binary64_ulp x"
  have q: "0 < ?q" by (rule binary64_ulp_pos)
  have "binary64_round x - x = ?q * (of_int (round_ties_even (x / ?q)) - x / ?q)"
    using False q by (simp add: binary64_round_def algebra_simps)
  then have "\<bar>binary64_round x - x\<bar> = ?q * \<bar>of_int (round_ties_even (x / ?q)) - x / ?q\<bar>"
    using q by (simp add: abs_mult)
  also have "\<dots> \<le> ?q * (1 / 2)"
    using q round_ties_even_error [of "x / ?q"] by (intro mult_left_mono) simp_all
  finally show ?thesis by simp
qed

lemma binary64_round_error:
  assumes "\<bar>x\<bar> < 2 powi k" and "- 1021 \<le> k"
  shows "\<bar>binary64_round x - x\<bar> \<le> 2 powi (k - 54)"
proof -
  have "\<bar>binary64_round x - x\<bar> \<le> binary64_ulp x / 2"
    by (rule binary64_round_scaled)
  also have "\<dots> \<le> 2 powi (k - 53) / 2"
    using binary64_ulp_upper [OF assms] by simp
  also have "\<dots> = 2 powi (k - 54)"
    using two_powi_half [of "k - 53"] by simp
  finally show ?thesis .
qed

lemma binary64_round_near:
  assumes "2 powi e \<le> \<bar>x\<bar>" and "\<bar>x\<bar> < 2 powi (e + 1)" and "- 1022 \<le> e" and "e \<le> 1023"
    and "\<bar>x - 2 powi (e - 52) * of_int m\<bar> < 2 powi (e - 52) / 2"
  shows "binary64_round x = 2 powi (e - 52) * of_int m"
proof -
  let ?q = "(2::real) powi (e - 52)"
  have q: "0 < ?q" by simp
  have ulp: "binary64_ulp x = ?q" using assms(1-4) by (rule binary64_ulp_eq)
  have "0 < \<bar>x\<bar>" using assms(1) zero_less_power_int [of "2::real" e] by linarith
  then have nz: "x \<noteq> 0" by simp
  have "x / ?q - of_int m = (x - ?q * of_int m) / ?q"
    using q by (simp add: field_simps)
  then have "\<bar>x / ?q - of_int m\<bar> = \<bar>x - ?q * of_int m\<bar> / ?q"
    using q by (simp add: abs_divide del: abs_power_int_minus)
  also have "\<dots> < (?q / 2) / ?q"
    using assms(5) q by (intro divide_strict_right_mono) simp_all
  also have "\<dots> = 1 / 2" using q by simp
  finally have "round_ties_even (x / ?q) = m" by (rule round_ties_even_near)
  then show ?thesis using nz ulp by (simp add: binary64_round_def)
qed

lemma binary64_round_zero: "binary64_round 0 = 0"
  by (simp add: binary64_round_def)

lemma binary64_round_tie:
  assumes "2 powi e \<le> \<bar>x\<bar>" and "\<bar>x\<bar> < 2 powi (e + 1)" and "- 1022 \<le> e" and "e \<le> 1023"
    and "even m"
    and "x = 2 powi (e - 52) * (of_int m + 1 / 2) \<or> x = 2 powi (e - 52) * (of_int m - 1 / 2)"
  shows "binary64_round x = 2 powi (e - 52) * of_int m"
proof -
  let ?q = "(2::real) powi (e - 52)"
  have q: "0 < ?q" by simp
  have ulp: "binary64_ulp x = ?q" using assms(1-4) by (rule binary64_ulp_eq)
  have "0 < \<bar>x\<bar>" using assms(1) zero_less_power_int [of "2::real" e] by linarith
  then have nz: "x \<noteq> 0" by simp
  have "x / ?q = of_int m + 1 / 2 \<or> x / ?q = of_int m - 1 / 2"
    using assms(6) q by (auto simp: field_simps)
  then have "round_ties_even (x / ?q) = m"
    using assms(5) by (auto intro: round_ties_even_tie_down round_ties_even_tie_up)
  then show ?thesis using nz ulp by (simp add: binary64_round_def)
qed

subsection \<open>The macros at single binary64 arguments\<close>

text \<open>
  Each step names the binade \<open>e\<close> of the exact result and the integer \<open>m\<close> that the
  rounding selects; the rounded result is \<open>m * 2\<^sup>e\<^sup>-\<^sup>5\<^sup>2\<close>.
\<close>

lemma f1_binary64_at_minus_one: "f1_binary64 (- 1) = 0"
proof -
  have a: "binary64_round (- 0.75 * (- 1)) = 3 / 2 ^ 2"
    using binary64_round_near [where x = "- 0.75 * (- 1)"
        and e = "- 1" and m = "6755399441055744"]
    by simp
  have b: "binary64_round ((- 1) * (- 1)) = 1"
    using binary64_round_near [where x = "(- 1) * (- 1)"
        and e = "0" and m = "4503599627370496"]
    by simp
  have c: "binary64_round (1 / 3) = 6004799503160661 / 2 ^ 54"
    using binary64_round_near [where x = "1 / 3"
        and e = "- 2" and m = "6004799503160661"]
    by simp
  have d: "binary64_round ((6004799503160661 / 2 ^ 54) - 1) = - 3002399751580331 / 2 ^ 52"
    using binary64_round_tie [where x = "(6004799503160661 / 2 ^ 54) - 1"
        and e = "- 1" and m = "- 6004799503160662"]
    by simp
  have p: "binary64_round ((3 / 2 ^ 2) * (- 3002399751580331 / 2 ^ 52)) = - 1 / 2 ^ 1"
    using binary64_round_tie [where x = "(3 / 2 ^ 2) * (- 3002399751580331 / 2 ^ 52)"
        and e = "- 1" and m = "- 4503599627370496"]
    by simp
  have s: "binary64_round ((- 1 / 2 ^ 1) + 0.5) = 0"
    by (simp add: binary64_round_zero)
  show ?thesis
    by (simp only: f1_binary64_def a b c d p s)
qed

lemma f1_binary64_at_one: "f1_binary64 1 = 1"
proof -
  have a: "binary64_round (- 0.75 * 1) = - 3 / 2 ^ 2"
    using binary64_round_near [where x = "- 0.75 * 1"
        and e = "- 1" and m = "- 6755399441055744"]
    by simp
  have b: "binary64_round (1 * 1) = 1"
    using binary64_round_near [where x = "1 * 1"
        and e = "0" and m = "4503599627370496"]
    by simp
  have c: "binary64_round (1 / 3) = 6004799503160661 / 2 ^ 54"
    using binary64_round_near [where x = "1 / 3"
        and e = "- 2" and m = "6004799503160661"]
    by simp
  have d: "binary64_round ((6004799503160661 / 2 ^ 54) - 1) = - 3002399751580331 / 2 ^ 52"
    using binary64_round_tie [where x = "(6004799503160661 / 2 ^ 54) - 1"
        and e = "- 1" and m = "- 6004799503160662"]
    by simp
  have p: "binary64_round ((- 3 / 2 ^ 2) * (- 3002399751580331 / 2 ^ 52)) = 1 / 2 ^ 1"
    using binary64_round_tie [where x = "(- 3 / 2 ^ 2) * (- 3002399751580331 / 2 ^ 52)"
        and e = "- 1" and m = "4503599627370496"]
    by simp
  have s: "binary64_round ((1 / 2 ^ 1) + 0.5) = 1"
    using binary64_round_near [where x = "(1 / 2 ^ 1) + 0.5"
        and e = "0" and m = "4503599627370496"]
    by simp
  show ?thesis
    by (simp only: f1_binary64_def a b c d p s)
qed

lemma f1_binary64_above_minus_one: "f1_binary64 (- 1 + 3 / 2 ^ 53) = - 1 / 2 ^ 53"
proof -
  have a: "binary64_round (- 0.75 * (- 1 + 3 / 2 ^ 53)) = 3377699720527871 / 2 ^ 52"
    using binary64_round_near [where x = "- 0.75 * (- 1 + 3 / 2 ^ 53)"
        and e = "- 1" and m = "6755399441055742"]
    by simp
  have b: "binary64_round ((- 1 + 3 / 2 ^ 53) * (- 1 + 3 / 2 ^ 53)) = 4503599627370493 / 2 ^ 52"
    using binary64_round_near [where x = "(- 1 + 3 / 2 ^ 53) * (- 1 + 3 / 2 ^ 53)"
        and e = "- 1" and m = "9007199254740986"]
    by simp
  have c: "binary64_round ((4503599627370493 / 2 ^ 52) / 3) = 6004799503160657 / 2 ^ 54"
    using binary64_round_near [where x = "(4503599627370493 / 2 ^ 52) / 3"
        and e = "- 2" and m = "6004799503160657"]
    by simp
  have d: "binary64_round ((6004799503160657 / 2 ^ 54) - 1) = - 750599937895083 / 2 ^ 50"
    using binary64_round_tie [where x = "(6004799503160657 / 2 ^ 54) - 1"
        and e = "- 1" and m = "- 6004799503160664"]
    by simp
  have p: "binary64_round ((3377699720527871 / 2 ^ 52) * (- 750599937895083 / 2 ^ 50)) = - 4503599627370497 / 2 ^ 53"
    using binary64_round_near [where x = "(3377699720527871 / 2 ^ 52) * (- 750599937895083 / 2 ^ 50)"
        and e = "- 1" and m = "- 4503599627370497"]
    by simp
  have s: "binary64_round ((- 4503599627370497 / 2 ^ 53) + 0.5) = - 1 / 2 ^ 53"
    using binary64_round_near [where x = "(- 4503599627370497 / 2 ^ 53) + 0.5"
        and e = "- 53" and m = "- 4503599627370496"]
    by simp
  show ?thesis
    by (simp only: f1_binary64_def a b c d p s)
qed

lemma f2_binary64_at_zero: "f2_binary64 0 = 0"
proof -
  have b: "binary64_round (0 * 0) = 0"
    by (simp add: binary64_round_zero)
  have c: "binary64_round (0 / 3) = 0"
    by (simp add: binary64_round_zero)
  have d: "binary64_round (0.5 - 0) = 1 / 2 ^ 1"
    using binary64_round_near [where x = "0.5 - 0"
        and e = "- 1" and m = "4503599627370496"]
    by simp
  have p: "binary64_round (0 * (1 / 2 ^ 1)) = 0"
    by (simp add: binary64_round_zero)
  have s: "binary64_round (0 * 6) = 0"
    by (simp add: binary64_round_zero)
  show ?thesis
    by (simp only: f2_binary64_def b c d p s)
qed

lemma f2_binary64_at_one: "f2_binary64 1 = 1"
proof -
  have b: "binary64_round (1 * 1) = 1"
    using binary64_round_near [where x = "1 * 1"
        and e = "0" and m = "4503599627370496"]
    by simp
  have c: "binary64_round (1 / 3) = 6004799503160661 / 2 ^ 54"
    using binary64_round_near [where x = "1 / 3"
        and e = "- 2" and m = "6004799503160661"]
    by simp
  have d: "binary64_round (0.5 - (6004799503160661 / 2 ^ 54)) = 3002399751580331 / 2 ^ 54"
    using binary64_round_near [where x = "0.5 - (6004799503160661 / 2 ^ 54)"
        and e = "- 3" and m = "6004799503160662"]
    by simp
  have p: "binary64_round (1 * (3002399751580331 / 2 ^ 54)) = 3002399751580331 / 2 ^ 54"
    using binary64_round_near [where x = "1 * (3002399751580331 / 2 ^ 54)"
        and e = "- 3" and m = "6004799503160662"]
    by simp
  have s: "binary64_round ((3002399751580331 / 2 ^ 54) * 6) = 1"
    using binary64_round_tie [where x = "(3002399751580331 / 2 ^ 54) * 6"
        and e = "0" and m = "4503599627370496"]
    by simp
  show ?thesis
    by (simp only: f2_binary64_def b c d p s)
qed

lemma f2_binary64_at_lower: "f2_binary64 (8106479329266894 / 2 ^ 53) = 4377498837804123 / 2 ^ 52"
proof -
  have b: "binary64_round ((8106479329266894 / 2 ^ 53) * (8106479329266894 / 2 ^ 53)) = 3647915698170103 / 2 ^ 52"
    using binary64_round_near [where x = "(8106479329266894 / 2 ^ 53) * (8106479329266894 / 2 ^ 53)"
        and e = "- 1" and m = "7295831396340206"]
    by simp
  have c: "binary64_round ((8106479329266894 / 2 ^ 53) / 3) = 1351079888211149 / 2 ^ 52"
    using binary64_round_near [where x = "(8106479329266894 / 2 ^ 53) / 3"
        and e = "- 2" and m = "5404319552844596"]
    by simp
  have d: "binary64_round (0.5 - (1351079888211149 / 2 ^ 52)) = 900719925474099 / 2 ^ 52"
    using binary64_round_near [where x = "0.5 - (1351079888211149 / 2 ^ 52)"
        and e = "- 3" and m = "7205759403792792"]
    by simp
  have p: "binary64_round ((3647915698170103 / 2 ^ 52) * (900719925474099 / 2 ^ 52)) = 1459166279268041 / 2 ^ 53"
    using binary64_round_near [where x = "(3647915698170103 / 2 ^ 52) * (900719925474099 / 2 ^ 52)"
        and e = "- 3" and m = "5836665117072164"]
    by simp
  have s: "binary64_round ((1459166279268041 / 2 ^ 53) * 6) = 4377498837804123 / 2 ^ 52"
    using binary64_round_near [where x = "(1459166279268041 / 2 ^ 53) * 6"
        and e = "- 1" and m = "8754997675608246"]
    by simp
  show ?thesis
    by (simp only: f2_binary64_def b c d p s)
qed

lemma f2_binary64_at_upper: "f2_binary64 (8106479329266895 / 2 ^ 53) = 2188749418902061 / 2 ^ 51"
proof -
  have b: "binary64_round ((8106479329266895 / 2 ^ 53) * (8106479329266895 / 2 ^ 53)) = 7295831396340207 / 2 ^ 53"
    using binary64_round_near [where x = "(8106479329266895 / 2 ^ 53) * (8106479329266895 / 2 ^ 53)"
        and e = "- 1" and m = "7295831396340207"]
    by simp
  have c: "binary64_round ((8106479329266895 / 2 ^ 53) / 3) = 5404319552844597 / 2 ^ 54"
    using binary64_round_near [where x = "(8106479329266895 / 2 ^ 53) / 3"
        and e = "- 2" and m = "5404319552844597"]
    by simp
  have d: "binary64_round (0.5 - (5404319552844597 / 2 ^ 54)) = 3602879701896395 / 2 ^ 54"
    using binary64_round_near [where x = "0.5 - (5404319552844597 / 2 ^ 54)"
        and e = "- 3" and m = "7205759403792790"]
    by simp
  have p: "binary64_round ((7295831396340207 / 2 ^ 53) * (3602879701896395 / 2 ^ 54)) = 5836665117072163 / 2 ^ 55"
    using binary64_round_near [where x = "(7295831396340207 / 2 ^ 53) * (3602879701896395 / 2 ^ 54)"
        and e = "- 3" and m = "5836665117072163"]
    by simp
  have s: "binary64_round ((5836665117072163 / 2 ^ 55) * 6) = 2188749418902061 / 2 ^ 51"
    using binary64_round_tie [where x = "(5836665117072163 / 2 ^ 55) * 6"
        and e = "- 1" and m = "8754997675608244"]
    by simp
  show ?thesis
    by (simp only: f2_binary64_def b c d p s)
qed

subsection \<open>The distance between the binary64 and the exact values\<close>

lemma abs_mult_diff:
  fixes a b a' b' :: real
  assumes "\<bar>a' - a\<bar> \<le> ea" and "\<bar>b'\<bar> \<le> mb" and "\<bar>a\<bar> \<le> ma" and "\<bar>b' - b\<bar> \<le> eb"
  shows "\<bar>a' * b' - a * b\<bar> \<le> ea * mb + ma * eb"
proof -
  have "a' * b' - a * b = (a' - a) * b' + a * (b' - b)"
    by (simp add: algebra_simps)
  then have "\<bar>a' * b' - a * b\<bar> \<le> \<bar>(a' - a) * b'\<bar> + \<bar>a * (b' - b)\<bar>"
    by (simp add: abs_triangle_ineq)
  also have "\<dots> = \<bar>a' - a\<bar> * \<bar>b'\<bar> + \<bar>a\<bar> * \<bar>b' - b\<bar>"
    by (simp add: abs_mult)
  also have "\<dots> \<le> ea * mb + ma * eb"
    using assms by (intro add_mono mult_mono) (auto intro: order_trans [OF abs_ge_zero])
  finally show ?thesis .
qed

lemma round_error_53: "\<bar>x\<bar> < 2 \<Longrightarrow> \<bar>binary64_round x - x\<bar> \<le> 1 / 2 ^ 53"
  using binary64_round_error [of x 1] by simp

lemma round_error_54: "\<bar>x\<bar> < 1 \<Longrightarrow> \<bar>binary64_round x - x\<bar> \<le> 1 / 2 ^ 54"
  using binary64_round_error [of x 0] by simp

lemma round_error_55: "\<bar>x\<bar> < 1 / 2 \<Longrightarrow> \<bar>binary64_round x - x\<bar> \<le> 1 / 2 ^ 55"
  using binary64_round_error [of x "- 1"] by simp

lemma round_error_52: "\<bar>x\<bar> < 4 \<Longrightarrow> \<bar>binary64_round x - x\<bar> \<le> 1 / 2 ^ 52"
  using binary64_round_error [of x 2] by simp

lemma f1_binary64_error:
  assumes "\<bar>x\<bar> \<le> 1"
  shows "\<bar>f1_binary64 x - f1 x\<bar> \<le> 1 / 2 ^ 51"
proof -
  define a where "a = - 0.75 * x"
  define b where "b = x * x"
  define B where "B = b / 3 - 1"
  define ra where "ra = binary64_round a"
  define rb where "rb = binary64_round b"
  define rc where "rc = binary64_round (rb / 3)"
  define rd where "rd = binary64_round (rc - 1)"
  define rp where "rp = binary64_round (ra * rd)"
  define rs where "rs = binary64_round (rp + 0.5)"
  have a: "\<bar>a\<bar> \<le> 3 / 4" using assms by (simp add: a_def abs_mult)
  have "0 \<le> x * x" by simp
  moreover have "x * x \<le> 1"
  proof -
    have "\<bar>x\<bar> * \<bar>x\<bar> \<le> 1" using assms by (intro mult_le_one) simp_all
    then show ?thesis by simp
  qed
  ultimately have b: "0 \<le> b" "b \<le> 1" by (simp_all add: b_def)
  then have B: "\<bar>B\<bar> \<le> 1" by (simp add: B_def)
  have "\<bar>a\<bar> < 1" using a by simp
  then have ra: "\<bar>ra - a\<bar> \<le> 1 / 2 ^ 54"
    unfolding ra_def by (rule round_error_54)
  have "\<bar>b\<bar> < 2" using b by simp
  then have rb: "\<bar>rb - b\<bar> \<le> 1 / 2 ^ 53"
    unfolding rb_def by (rule round_error_53)
  have "\<bar>rb / 3\<bar> < 1 / 2" using rb b by (simp add: abs_if split: if_splits)
  then have rc0: "\<bar>rc - rb / 3\<bar> \<le> 1 / 2 ^ 55"
    unfolding rc_def by (rule round_error_55)
  have rc: "\<bar>rc - b / 3\<bar> \<le> 7 / (12 * 2 ^ 53)" using rc0 rb by (simp add: abs_if split: if_splits)
  have "\<bar>rc - 1\<bar> < 2" using rc b by (simp add: abs_if split: if_splits)
  then have rd0: "\<bar>rd - (rc - 1)\<bar> \<le> 1 / 2 ^ 53"
    unfolding rd_def by (rule round_error_53)
  have rd: "\<bar>rd - B\<bar> \<le> 19 / (12 * 2 ^ 53)"
    using rd0 rc by (simp add: B_def abs_if split: if_splits)
  have ra_mag: "\<bar>ra\<bar> \<le> 4 / 5" using ra a by (simp add: abs_if split: if_splits)
  have rd_mag: "\<bar>rd\<bar> \<le> 9 / 8" using rd B by (simp add: abs_if split: if_splits)
  have "\<bar>ra * rd\<bar> \<le> 4 / 5 * (9 / 8)"
    unfolding abs_mult using ra_mag rd_mag by (intro mult_mono) simp_all
  then have p_mag: "\<bar>ra * rd\<bar> < 1" by simp
  have rp0: "\<bar>rp - ra * rd\<bar> \<le> 1 / 2 ^ 54"
    unfolding rp_def using p_mag by (rule round_error_54)
  have "\<bar>ra * rd - a * B\<bar> \<le> 1 / 2 ^ 54 * (9 / 8) + 3 / 4 * (19 / (12 * 2 ^ 53))"
    using ra rd_mag a rd by (rule abs_mult_diff)
  then have rp: "\<bar>rp - a * B\<bar> \<le> 9 / 2 ^ 55"
    using rp0 by (simp add: abs_if split: if_splits)
  have "\<bar>a * B\<bar> \<le> 3 / 4 * 1"
    unfolding abs_mult using a B by (intro mult_mono) simp_all
  then have rp_mag: "\<bar>rp\<bar> \<le> 4 / 5" using rp by (simp add: abs_if split: if_splits)
  then have "\<bar>rp + 0.5\<bar> < 2" by (simp add: abs_if split: if_splits)
  then have rs0: "\<bar>rs - (rp + 0.5)\<bar> \<le> 1 / 2 ^ 53"
    unfolding rs_def by (rule round_error_53)
  have "\<bar>rs - (a * B + 0.5)\<bar> \<le> 13 / 2 ^ 55"
    using rs0 rp by (simp add: abs_if split: if_splits)
  moreover have "f1 x = a * B + 0.5"
    by (simp add: f1_def a_def B_def b_def)
  moreover have "f1_binary64 x = rs"
    by (simp add: f1_binary64_def rs_def rp_def rd_def rc_def rb_def ra_def a_def b_def)
  ultimately show ?thesis by (simp add: abs_if split: if_splits)
qed

lemma f2_binary64_error:
  assumes "0 \<le> x" and "x \<le> 1"
  shows "\<bar>f2_binary64 x - f2 x\<bar> \<le> 1 / 2 ^ 49"
proof -
  define b where "b = x * x"
  define C where "C = 0.5 - x / 3"
  define rb where "rb = binary64_round b"
  define rc where "rc = binary64_round (x / 3)"
  define rd where "rd = binary64_round (0.5 - rc)"
  define rp where "rp = binary64_round (rb * rd)"
  define rs where "rs = binary64_round (rp * 6)"
  have "x * x \<le> 1" using assms by (simp add: mult_le_one)
  then have b: "0 \<le> b" "b \<le> 1" by (simp_all add: b_def)
  have C: "1 / 6 \<le> C" "C \<le> 1 / 2" using assms by (simp_all add: C_def)
  have "\<bar>b\<bar> < 2" using b by simp
  then have rb: "\<bar>rb - b\<bar> \<le> 1 / 2 ^ 53"
    unfolding rb_def by (rule round_error_53)
  have "\<bar>x / 3\<bar> < 1 / 2" using assms by simp
  then have rc: "\<bar>rc - x / 3\<bar> \<le> 1 / 2 ^ 55"
    unfolding rc_def by (rule round_error_55)
  have "\<bar>0.5 - rc\<bar> < 1" using rc assms by (simp add: abs_if split: if_splits)
  then have rd0: "\<bar>rd - (0.5 - rc)\<bar> \<le> 1 / 2 ^ 54"
    unfolding rd_def by (rule round_error_54)
  have rd: "\<bar>rd - C\<bar> \<le> 1 / 2 ^ 53"
    using rd0 rc by (simp add: C_def abs_if split: if_splits)
  have rb_mag: "\<bar>rb\<bar> \<le> 9 / 8" using rb b by (simp add: abs_if split: if_splits)
  have rd_mag: "\<bar>rd\<bar> \<le> 5 / 8" using rd C by (simp add: abs_if split: if_splits)
  have "\<bar>rb * rd\<bar> \<le> 9 / 8 * (5 / 8)"
    unfolding abs_mult using rb_mag rd_mag by (intro mult_mono) simp_all
  then have p_mag: "\<bar>rb * rd\<bar> < 1" by simp
  have rp0: "\<bar>rp - rb * rd\<bar> \<le> 1 / 2 ^ 54"
    unfolding rp_def using p_mag by (rule round_error_54)
  have b_mag: "\<bar>b\<bar> \<le> 1" using b by simp
  have "\<bar>rb * rd - b * C\<bar> \<le> 1 / 2 ^ 53 * (5 / 8) + 1 * (1 / 2 ^ 53)"
    using rb rd_mag b_mag rd by (rule abs_mult_diff)
  then have rp: "\<bar>rp - b * C\<bar> \<le> 17 / 2 ^ 56"
    using rp0 by (simp add: abs_if split: if_splits)
  have "b * C \<le> 1 * (1 / 2)" using b C by (intro mult_mono) simp_all
  moreover have "0 \<le> b * C" using b C by simp
  ultimately have rp_mag: "\<bar>rp\<bar> \<le> 5 / 8"
    using rp by (simp add: abs_if split: if_splits)
  then have "\<bar>rp * 6\<bar> < 4" by (simp add: abs_if split: if_splits)
  then have rs0: "\<bar>rs - rp * 6\<bar> \<le> 1 / 2 ^ 52"
    unfolding rs_def by (rule round_error_52)
  have "\<bar>rs - b * C * 6\<bar> \<le> 118 / 2 ^ 56"
    using rs0 rp by (simp add: abs_if split: if_splits)
  moreover have "f2 x = b * C * 6"
    by (simp add: f2_def b_def C_def)
  moreover have "f2_binary64 x = rs"
    by (simp add: f2_binary64_def rs_def rp_def rd_def rc_def rb_def b_def)
  ultimately show ?thesis by (simp add: abs_if split: if_splits)
qed

lemma f1_binary64_nearly_nondecreasing:
  assumes "- 1 \<le> x" and "x \<le> y" and "y \<le> 1"
  shows "f1_binary64 x \<le> f1_binary64 y + 1 / 2 ^ 50"
proof -
  have x: "\<bar>x\<bar> \<le> 1" and y: "\<bar>y\<bar> \<le> 1" using assms by simp_all
  have "\<bar>f1_binary64 x - f1 x\<bar> \<le> 1 / 2 ^ 51"
    using x by (rule f1_binary64_error)
  moreover have "\<bar>f1_binary64 y - f1 y\<bar> \<le> 1 / 2 ^ 51"
    using y by (rule f1_binary64_error)
  moreover have "f1 x \<le> f1 y" using assms by (rule f1_nondecreasing)
  ultimately show ?thesis by (simp add: abs_if split: if_splits)
qed

lemma f2_binary64_nearly_nondecreasing:
  assumes "0 \<le> x" and "x \<le> y" and "y \<le> 1"
  shows "f2_binary64 x \<le> f2_binary64 y + 1 / 2 ^ 48"
proof -
  have y: "0 \<le> y" and x: "x \<le> 1" using assms by simp_all
  have "\<bar>f2_binary64 x - f2 x\<bar> \<le> 1 / 2 ^ 49"
    using assms(1) x by (rule f2_binary64_error)
  moreover have "\<bar>f2_binary64 y - f2 y\<bar> \<le> 1 / 2 ^ 49"
    using y assms(3) by (rule f2_binary64_error)
  moreover have "f2 x \<le> f2 y" using assms by (rule f2_nondecreasing)
  ultimately show ?thesis by (simp add: abs_if split: if_splits)
qed

subsection \<open>The claim\<close>

text \<open>
  Claim C3 as the specification states it: \<open>f1\<close> is non-decreasing on \<open>[-1, 1]\<close> and \<open>f2\<close>
  on \<open>[0, 1]\<close>. The macros as they are evaluated in binary64 are not: \<open>-1 + 3 * 2\<^sup>-\<^sup>5\<^sup>3\<close> is
  above \<open>-1\<close> and \<open>f1\<close> returns \<open>-2\<^sup>-\<^sup>5\<^sup>3\<close> there, below its value 0 at \<open>-1\<close>; and \<open>f2\<close>
  returns less at \<open>8106479329266895 * 2\<^sup>-\<^sup>5\<^sup>3\<close> than at the binary64 value just below it.
\<close>

theorem smooth_steps_binary64_not_monotone:
  "(- 1 :: real) \<le> - 1 \<and> (- 1 :: real) \<le> - 1 + 3 / 2 ^ 53 \<and> - 1 + 3 / 2 ^ 53 \<le> (1 :: real)
   \<and> f1_binary64 (- 1 + 3 / 2 ^ 53) < f1_binary64 (- 1)
   \<and> (0 :: real) \<le> 8106479329266894 / 2 ^ 53
   \<and> (8106479329266894 / 2 ^ 53 :: real) \<le> 8106479329266895 / 2 ^ 53
   \<and> (8106479329266895 / 2 ^ 53 :: real) \<le> 1
   \<and> f2_binary64 (8106479329266895 / 2 ^ 53) < f2_binary64 (8106479329266894 / 2 ^ 53)"
proof -
  have "f1_binary64 (- 1 + 3 / 2 ^ 53) < f1_binary64 (- 1)"
    unfolding f1_binary64_above_minus_one f1_binary64_at_minus_one by simp
  moreover have
    "f2_binary64 (8106479329266895 / 2 ^ 53) < f2_binary64 (8106479329266894 / 2 ^ 53)"
    unfolding f2_binary64_at_lower f2_binary64_at_upper by simp
  ultimately show ?thesis by simp
qed

text \<open>
  Claim C3, amended. Read as real functions, the macros \<open>f1\<close> and \<open>f2\<close> are smooth steps:
  \<open>f1\<close> is 0 at \<open>-1\<close> and 1 at \<open>1\<close>, its derivative vanishes at both ends and it is
  non-decreasing on \<open>[-1, 1]\<close>; \<open>f2\<close> is 0 at \<open>0\<close> and 1 at \<open>1\<close>, its derivative vanishes at
  both ends and it is non-decreasing on \<open>[0, 1]\<close>. Both are differentiable everywhere,
  with the derivatives \<open>3/4 (1 - x\<^sup>2)\<close> and \<open>6 x (1 - x)\<close>, which are polynomials and hence
  continuous. Evaluated in binary64, the macros still return exactly 0 and 1 at the ends
  of their windows; on its window the computed \<open>f1\<close> is within \<open>2\<^sup>-\<^sup>5\<^sup>1\<close> of the real value
  and the computed \<open>f2\<close> within \<open>2\<^sup>-\<^sup>4\<^sup>9\<close>, so that the computed values are non-decreasing
  up to \<open>2\<^sup>-\<^sup>5\<^sup>0\<close> and \<open>2\<^sup>-\<^sup>4\<^sup>8\<close>, and not exactly.
\<close>

theorem smooth_steps:
  "f1 (- 1) = 0 \<and> f1 1 = 1
   \<and> (f1 has_real_derivative 0) (at (- 1)) \<and> (f1 has_real_derivative 0) (at 1)
   \<and> (\<forall>x y. - 1 \<le> x \<and> x \<le> y \<and> y \<le> 1 \<longrightarrow> f1 x \<le> f1 y)
   \<and> (\<forall>x. (f1 has_real_derivative (3 / 4 * (1 - x * x))) (at x))
   \<and> f2 0 = 0 \<and> f2 1 = 1
   \<and> (f2 has_real_derivative 0) (at 0) \<and> (f2 has_real_derivative 0) (at 1)
   \<and> (\<forall>x y. 0 \<le> x \<and> x \<le> y \<and> y \<le> 1 \<longrightarrow> f2 x \<le> f2 y)
   \<and> (\<forall>x. (f2 has_real_derivative (6 * x * (1 - x))) (at x))
   \<and> f1_binary64 (- 1) = 0 \<and> f1_binary64 1 = 1
   \<and> f2_binary64 0 = 0 \<and> f2_binary64 1 = 1
   \<and> (\<forall>x. - 1 \<le> x \<and> x \<le> 1 \<longrightarrow> \<bar>f1_binary64 x - f1 x\<bar> \<le> 1 / 2 ^ 51)
   \<and> (\<forall>x. 0 \<le> x \<and> x \<le> 1 \<longrightarrow> \<bar>f2_binary64 x - f2 x\<bar> \<le> 1 / 2 ^ 49)
   \<and> (\<forall>x y. - 1 \<le> x \<and> x \<le> y \<and> y \<le> 1 \<longrightarrow> f1_binary64 x \<le> f1_binary64 y + 1 / 2 ^ 50)
   \<and> (\<forall>x y. 0 \<le> x \<and> x \<le> y \<and> y \<le> 1 \<longrightarrow> f2_binary64 x \<le> f2_binary64 y + 1 / 2 ^ 48)"
proof -
  have exact: "f1 (- 1) = 0 \<and> f1 1 = 1
   \<and> (f1 has_real_derivative 0) (at (- 1)) \<and> (f1 has_real_derivative 0) (at 1)
   \<and> (\<forall>x y. - 1 \<le> x \<and> x \<le> y \<and> y \<le> 1 \<longrightarrow> f1 x \<le> f1 y)
   \<and> (\<forall>x. (f1 has_real_derivative (3 / 4 * (1 - x * x))) (at x))
   \<and> f2 0 = 0 \<and> f2 1 = 1
   \<and> (f2 has_real_derivative 0) (at 0) \<and> (f2 has_real_derivative 0) (at 1)
   \<and> (\<forall>x y. 0 \<le> x \<and> x \<le> y \<and> y \<le> 1 \<longrightarrow> f2 x \<le> f2 y)
   \<and> (\<forall>x. (f2 has_real_derivative (6 * x * (1 - x))) (at x))"
    using f1_endpoints f2_endpoints f1_derivative_endpoints f2_derivative_endpoints
      f1_nondecreasing f2_nondecreasing f1_has_derivative f2_has_derivative
    by blast
  have ends: "f1_binary64 (- 1) = 0 \<and> f1_binary64 1 = 1
      \<and> f2_binary64 0 = 0 \<and> f2_binary64 1 = 1"
    using f1_binary64_at_minus_one f1_binary64_at_one f2_binary64_at_zero f2_binary64_at_one
    by simp
  have "\<bar>f1_binary64 x - f1 x\<bar> \<le> 1 / 2 ^ 51" if "- 1 \<le> x \<and> x \<le> 1" for x
  proof -
    have "\<bar>x\<bar> \<le> 1" using that by (simp add: abs_le_iff)
    then show ?thesis by (rule f1_binary64_error)
  qed
  then have near1: "\<forall>x. - 1 \<le> x \<and> x \<le> 1 \<longrightarrow> \<bar>f1_binary64 x - f1 x\<bar> \<le> 1 / 2 ^ 51"
    by blast
  have near2: "\<forall>x. 0 \<le> x \<and> x \<le> 1 \<longrightarrow> \<bar>f2_binary64 x - f2 x\<bar> \<le> 1 / 2 ^ 49"
    using f2_binary64_error by blast
  have mono1: "\<forall>x y. - 1 \<le> x \<and> x \<le> y \<and> y \<le> 1
      \<longrightarrow> f1_binary64 x \<le> f1_binary64 y + 1 / 2 ^ 50"
    using f1_binary64_nearly_nondecreasing by blast
  have mono2: "\<forall>x y. 0 \<le> x \<and> x \<le> y \<and> y \<le> 1
      \<longrightarrow> f2_binary64 x \<le> f2_binary64 y + 1 / 2 ^ 48"
    using f2_binary64_nearly_nondecreasing by blast
  show ?thesis
    using exact ends near1 near2 mono1 mono2 by (intro conjI) blast+
qed

text \<open>
  The amended statement at concrete arguments: the exact functions between the ends and
  the middle of their windows, the binary64 ones at the arguments where exact
  monotonicity fails.
\<close>

theorem smooth_steps_witness:
  "(- 1 :: real) \<le> - 1 \<and> (- 1 :: real) \<le> 0 \<and> (0 :: real) \<le> 1
   \<and> f1 (- 1) \<le> f1 0 \<and> f1 0 \<le> f1 1 \<and> f1 0 = 1 / 2
   \<and> (0 :: real) \<le> 1 / 2 \<and> (1 / 2 :: real) \<le> 1
   \<and> f2 0 \<le> f2 (1 / 2) \<and> f2 (1 / 2) \<le> f2 1 \<and> f2 (1 / 2) = 1 / 2
   \<and> (- 1 :: real) \<le> - 1 + 3 / 2 ^ 53 \<and> (- 1 + 3 / 2 ^ 53 :: real) \<le> 1
   \<and> \<bar>f1_binary64 (- 1 + 3 / 2 ^ 53) - f1 (- 1 + 3 / 2 ^ 53)\<bar> \<le> 1 / 2 ^ 51
   \<and> f1_binary64 (- 1) \<le> f1_binary64 (- 1 + 3 / 2 ^ 53) + 1 / 2 ^ 50
   \<and> (0 :: real) \<le> 8106479329266894 / 2 ^ 53
   \<and> (8106479329266894 / 2 ^ 53 :: real) \<le> 8106479329266895 / 2 ^ 53
   \<and> (8106479329266895 / 2 ^ 53 :: real) \<le> 1
   \<and> \<bar>f2_binary64 (8106479329266895 / 2 ^ 53) - f2 (8106479329266895 / 2 ^ 53)\<bar> \<le> 1 / 2 ^ 49
   \<and> f2_binary64 (8106479329266894 / 2 ^ 53)
        \<le> f2_binary64 (8106479329266895 / 2 ^ 53) + 1 / 2 ^ 48"
proof -
  have a: "- 1 \<le> (- 1 :: real) \<and> (- 1 :: real) \<le> 0 \<and> (0 :: real) \<le> 1" by simp
  have b: "- 1 \<le> (0 :: real) \<and> (0 :: real) \<le> 1 \<and> (1 :: real) \<le> 1" by simp
  have c: "0 \<le> (0 :: real) \<and> (0 :: real) \<le> 1 / 2 \<and> (1 / 2 :: real) \<le> 1" by simp
  have d: "0 \<le> (1 / 2 :: real) \<and> (1 / 2 :: real) \<le> 1 \<and> (1 :: real) \<le> 1" by simp
  have e: "- 1 \<le> (- 1 + 3 / 2 ^ 53 :: real) \<and> (- 1 + 3 / 2 ^ 53 :: real) \<le> 1" by simp
  have f: "- 1 \<le> (- 1 :: real) \<and> (- 1 :: real) \<le> - 1 + 3 / 2 ^ 53
      \<and> (- 1 + 3 / 2 ^ 53 :: real) \<le> 1" by simp
  have g: "0 \<le> (8106479329266895 / 2 ^ 53 :: real) \<and> (8106479329266895 / 2 ^ 53 :: real) \<le> 1"
    by simp
  have h: "0 \<le> (8106479329266894 / 2 ^ 53 :: real)
      \<and> (8106479329266894 / 2 ^ 53 :: real) \<le> 8106479329266895 / 2 ^ 53
      \<and> (8106479329266895 / 2 ^ 53 :: real) \<le> 1" by simp
  have "f1 (- 1) \<le> f1 0" using smooth_steps a by blast
  moreover have "f1 0 \<le> f1 1" using smooth_steps b by blast
  moreover have "f2 0 \<le> f2 (1 / 2)" using smooth_steps c by blast
  moreover have "f2 (1 / 2) \<le> f2 1" using smooth_steps d by blast
  moreover have "f1 0 = 1 / 2" by (simp add: f1_def)
  moreover have "f2 (1 / 2) = 1 / 2" by (simp add: f2_def)
  moreover have "\<bar>f1_binary64 (- 1 + 3 / 2 ^ 53) - f1 (- 1 + 3 / 2 ^ 53)\<bar> \<le> 1 / 2 ^ 51"
    using smooth_steps e by blast
  moreover have "f1_binary64 (- 1) \<le> f1_binary64 (- 1 + 3 / 2 ^ 53) + 1 / 2 ^ 50"
    using smooth_steps f by blast
  moreover have
    "\<bar>f2_binary64 (8106479329266895 / 2 ^ 53) - f2 (8106479329266895 / 2 ^ 53)\<bar> \<le> 1 / 2 ^ 49"
    using smooth_steps g by blast
  moreover have "f2_binary64 (8106479329266894 / 2 ^ 53)
        \<le> f2_binary64 (8106479329266895 / 2 ^ 53) + 1 / 2 ^ 48"
    using smooth_steps h by blast
  ultimately show ?thesis by simp
qed

section \<open>The reionization schemes\<close>

lemma reionization_parametrization_UNIV:
  "(UNIV :: reionization_parametrization set) = set reionization_parametrization_all"
proof -
  have "p \<in> set reionization_parametrization_all" for p
    by (cases p) (simp_all add: reionization_parametrization_all_def)
  then show ?thesis by blast
qed

lemma reionization_parametrization_card:
  "card (UNIV :: reionization_parametrization set) = 6"
proof -
  have "distinct reionization_parametrization_all"
    by (simp add: reionization_parametrization_all_def)
  then have "card (set reionization_parametrization_all) = length reionization_parametrization_all"
    by (rule distinct_card)
  then show ?thesis
    by (simp add: reionization_parametrization_UNIV reionization_parametrization_all_def)
qed

lemma spec_reionization_choice_UNIV:
  "(UNIV :: spec_reionization_choice set) =
     {spec_none, spec_single_tanh, spec_binned_tanh, spec_multi_tanh, spec_piecewise_linear}"
proof -
  have "c \<in> {spec_none, spec_single_tanh, spec_binned_tanh, spec_multi_tanh, spec_piecewise_linear}"
    for c by (cases c) simp_all
  then show ?thesis by blast
qed

lemma spec_reionization_choice_card:
  "card (UNIV :: spec_reionization_choice set) = 5"
  by (simp add: spec_reionization_choice_UNIV)

text \<open>
  Claim C8 as the specification states it: the values of the enumeration correspond one
  to one to the five options \{none, single-tanh, binned-tanh, multi-tanh,
  piecewise-linear\}. The enumeration has a sixth value, \<open>reio_half_tanh\<close>, so whatever
  option each value is read as, two values share an option.
\<close>

theorem reionization_choices_not_five:
  "\<not> (\<exists>f :: reionization_parametrization \<Rightarrow> spec_reionization_choice. inj f)"
proof
  assume "\<exists>f :: reionization_parametrization \<Rightarrow> spec_reionization_choice. inj f"
  then obtain f :: "reionization_parametrization \<Rightarrow> spec_reionization_choice"
    where "inj f" by blast
  have fin: "finite (UNIV :: spec_reionization_choice set)"
    by (simp add: spec_reionization_choice_UNIV)
  have "card (UNIV :: reionization_parametrization set)
          \<le> card (UNIV :: spec_reionization_choice set)"
    using \<open>inj f\<close> fin by (intro card_inj_on_le [of f]) simp_all
  then show False
    by (simp add: reionization_parametrization_card spec_reionization_choice_card)
qed

text \<open>
  Claim C8, amended. The enumeration \<open>reionization_parametrization\<close> has exactly six
  values, in this order and numbered from 0 to 5: \<open>reio_none\<close>, \<open>reio_camb\<close>,
  \<open>reio_bins_tanh\<close>, \<open>reio_half_tanh\<close>, \<open>reio_many_tanh\<close>, \<open>reio_inter\<close>; they are
  pairwise distinct and there is no other value.
\<close>

theorem reionization_choices_six:
  "(UNIV :: reionization_parametrization set) =
      {reio_none, reio_camb, reio_bins_tanh, reio_half_tanh, reio_many_tanh, reio_inter}
   \<and> distinct [reio_none, reio_camb, reio_bins_tanh, reio_half_tanh, reio_many_tanh, reio_inter]
   \<and> card (UNIV :: reionization_parametrization set) = 6
   \<and> map reionization_parametrization_value
        [reio_none, reio_camb, reio_bins_tanh, reio_half_tanh, reio_many_tanh, reio_inter]
      = [0, 1, 2, 3, 4, 5]"
  using reionization_parametrization_UNIV reionization_parametrization_card
  by (simp add: reionization_parametrization_all_def)

section \<open>The annihilation rate at the edges of its window\<close>

subsection \<open>One-sided derivatives\<close>

lemma derivative_from_left:
  fixes f g :: "real \<Rightarrow> real"
  assumes "(g has_real_derivative D) (at x)" and "a < x"
    and "\<And>z. a \<le> z \<Longrightarrow> z \<le> x \<Longrightarrow> f z = g z"
  shows "(f has_real_derivative D) (at_left x)"
proof -
  have "(g has_real_derivative D) (at x within {a..x})"
    using assms(1) by (rule has_field_derivative_at_within)
  then have "(f has_real_derivative D) (at x within {a..x})"
  proof (rule has_field_derivative_transform_within)
    show "(0::real) < 1" by simp
    show "x \<in> {a..x}" using \<open>a < x\<close> by simp
    show "g z = f z" if "z \<in> {a..x}" for z using that assms(3) [of z] by simp
  qed
  then show ?thesis by (simp add: at_within_Icc_at_left [OF \<open>a < x\<close>])
qed

lemma derivative_from_right:
  fixes f g :: "real \<Rightarrow> real"
  assumes "(g has_real_derivative D) (at x)" and "x < b"
    and "\<And>z. x \<le> z \<Longrightarrow> z \<le> b \<Longrightarrow> f z = g z"
  shows "(f has_real_derivative D) (at_right x)"
proof -
  have "(g has_real_derivative D) (at x within {x..b})"
    using assms(1) by (rule has_field_derivative_at_within)
  then have "(f has_real_derivative D) (at x within {x..b})"
  proof (rule has_field_derivative_transform_within)
    show "(0::real) < 1" by simp
    show "x \<in> {x..b}" using \<open>x < b\<close> by simp
    show "g z = f z" if "z \<in> {x..b}" for z using that assms(3) [of z] by simp
  qed
  then show ?thesis by (simp add: at_within_Icc_at_right [OF \<open>x < b\<close>])
qed

lemma derivative_from_both_sides:
  fixes f :: "real \<Rightarrow> real"
  assumes "(f has_real_derivative D) (at_left x)" and "(f has_real_derivative D) (at_right x)"
  shows "(f has_real_derivative D) (at x)"
  using assms by (simp add: has_field_derivative_iff filterlim_at_split)

lemma derivative_left_unique:
  fixes f :: "real \<Rightarrow> real"
  assumes "(f has_real_derivative D) (at_left x)" and "(f has_real_derivative E) (at_left x)"
  shows "D = E"
proof -
  have "((\<lambda>y. (f y - f x) / (y - x)) \<longlongrightarrow> D) (at_left x)"
    and "((\<lambda>y. (f y - f x) / (y - x)) \<longlongrightarrow> E) (at_left x)"
    using assms by (simp_all add: has_field_derivative_iff)
  then show ?thesis
    by (rule tendsto_unique [OF trivial_limit_at_left_real])
qed

lemma derivative_right_unique:
  fixes f :: "real \<Rightarrow> real"
  assumes "(f has_real_derivative D) (at_right x)" and "(f has_real_derivative E) (at_right x)"
  shows "D = E"
proof -
  have "((\<lambda>y. (f y - f x) / (y - x)) \<longlongrightarrow> D) (at_right x)"
    and "((\<lambda>y. (f y - f x) / (y - x)) \<longlongrightarrow> E) (at_right x)"
    using assms by (simp_all add: has_field_derivative_iff)
  then show ?thesis
    by (rule tendsto_unique [OF trivial_limit_at_right_real])
qed

subsection \<open>The parabola and the rate\<close>

lemma log_ratio_deriv:
  assumes "- 1 < annihilation_zmax p" "- 1 < z"
  shows "(annihilation_log_ratio p has_real_derivative (1 / (z + 1))) (at z)"
proof -
  define c where "c = annihilation_zmax p + 1"
  have c: "0 < c" and z: "0 < z + 1" using assms by (simp_all add: c_def)
  then have pos: "0 < (z + 1) / c" by simp
  have d: "((\<lambda>z. ln ((z + 1) / c)) has_real_derivative (1 / c) * (1 / ((z + 1) / c))) (at z)"
    using pos by (auto intro!: derivative_eq_intros)
  have e: "(1 / c) * (1 / ((z + 1) / c)) = 1 / (z + 1)"
    using c z by (simp add: field_simps)
  have "((\<lambda>z. ln ((z + 1) / c)) has_real_derivative 1 / (z + 1)) (at z)"
    using d unfolding e .
  then show ?thesis
    unfolding annihilation_log_ratio_def [abs_def] c_def .
qed

lemma parabola_deriv:
  assumes "- 1 < annihilation_zmax p" "- 1 < z"
  shows "(annihilation_parabola p has_real_derivative annihilation_parabola_slope p z) (at z)"
  unfolding annihilation_parabola_def [abs_def] annihilation_parabola_slope_def
  by (auto intro!: derivative_eq_intros log_ratio_deriv [OF assms] simp: field_simps)

lemma rate_clamp:
  assumes "annihilation_zmin p \<le> annihilation_zmax p"
  shows "annihilation_rate p z = annihilation_parabola p (min (annihilation_zmax p) (max (annihilation_zmin p) z))"
  using assms by (simp add: annihilation_rate_def min_def max_def)

lemma rate_left_of_zmin:
  assumes "annihilation_zmin p < annihilation_zmax p"
  shows "(annihilation_rate p has_real_derivative 0) (at_left (annihilation_zmin p))"
proof (rule derivative_from_left [where a = "annihilation_zmin p - 1"
      and g = "\<lambda>z. annihilation_parabola p (annihilation_zmin p)"])
  show "((\<lambda>z. annihilation_parabola p (annihilation_zmin p)) has_real_derivative 0)
          (at (annihilation_zmin p))" by simp
  show "annihilation_zmin p - 1 < annihilation_zmin p" by simp
  show "annihilation_rate p z = annihilation_parabola p (annihilation_zmin p)"
    if "z \<le> annihilation_zmin p" for z
    using that assms by (simp add: annihilation_rate_def)
qed

lemma rate_right_of_zmin:
  assumes "- 1 < annihilation_zmin p" "annihilation_zmin p < annihilation_zmax p"
  shows "(annihilation_rate p has_real_derivative
            annihilation_parabola_slope p (annihilation_zmin p)) (at_right (annihilation_zmin p))"
proof (rule derivative_from_right [where b = "annihilation_zmax p" and g = "annihilation_parabola p"])
  show "(annihilation_parabola p has_real_derivative
           annihilation_parabola_slope p (annihilation_zmin p)) (at (annihilation_zmin p))"
    using assms by (intro parabola_deriv) simp_all
  show "annihilation_zmin p < annihilation_zmax p" by fact
  show "annihilation_rate p z = annihilation_parabola p z"
    if "annihilation_zmin p \<le> z" "z \<le> annihilation_zmax p" for z
    using that by (auto simp: annihilation_rate_def)
qed

lemma rate_left_of_zmax:
  assumes "- 1 < annihilation_zmin p" "annihilation_zmin p < annihilation_zmax p"
  shows "(annihilation_rate p has_real_derivative
            annihilation_parabola_slope p (annihilation_zmax p)) (at_left (annihilation_zmax p))"
proof (rule derivative_from_left [where a = "annihilation_zmin p" and g = "annihilation_parabola p"])
  show "(annihilation_parabola p has_real_derivative
           annihilation_parabola_slope p (annihilation_zmax p)) (at (annihilation_zmax p))"
    using assms by (intro parabola_deriv) simp_all
  show "annihilation_zmin p < annihilation_zmax p" by fact
  show "annihilation_rate p z = annihilation_parabola p z"
    if "annihilation_zmin p \<le> z" "z \<le> annihilation_zmax p" for z
    using that by (auto simp: annihilation_rate_def)
qed

lemma rate_right_of_zmax:
  assumes "annihilation_zmin p \<le> annihilation_zmax p"
  shows "(annihilation_rate p has_real_derivative 0) (at_right (annihilation_zmax p))"
proof (rule derivative_from_right [where b = "annihilation_zmax p + 1"
      and g = "\<lambda>z. annihilation_parabola p (annihilation_zmax p)"])
  show "((\<lambda>z. annihilation_parabola p (annihilation_zmax p)) has_real_derivative 0)
          (at (annihilation_zmax p))" by simp
  show "annihilation_zmax p < annihilation_zmax p + 1" by simp
  show "annihilation_rate p z = annihilation_parabola p (annihilation_zmax p)"
    if "annihilation_zmax p \<le> z" for z
    using that assms by (simp add: rate_clamp [OF assms])
qed

lemma slope_at_zmax:
  assumes "- 1 < annihilation_zmax p"
  shows "annihilation_parabola_slope p (annihilation_zmax p) = 0"
  using assms by (simp add: annihilation_parabola_slope_def annihilation_log_ratio_def)

lemma slope_at_zmin_nonzero:
  assumes "- 1 < annihilation_zmin p" "annihilation_zmin p < annihilation_zmax p"
    and "annihilation p \<noteq> 0" "annihilation_variation p \<noteq> 0"
  shows "annihilation_parabola_slope p (annihilation_zmin p) \<noteq> 0"
proof -
  have "0 < (annihilation_zmin p + 1) / (annihilation_zmax p + 1)"
    and "(annihilation_zmin p + 1) / (annihilation_zmax p + 1) < 1"
    using assms by simp_all
  then have "annihilation_log_ratio p (annihilation_zmin p) < 0"
    by (simp add: annihilation_log_ratio_def)
  moreover have "annihilation_parabola p (annihilation_zmin p) \<noteq> 0"
    using assms by (simp add: annihilation_parabola_def)
  ultimately show ?thesis
    using assms by (simp add: annihilation_parabola_slope_def)
qed

lemma rate_not_differentiable_at_zmin:
  assumes "- 1 < annihilation_zmin p" "annihilation_zmin p < annihilation_zmax p"
    and "annihilation p \<noteq> 0" "annihilation_variation p \<noteq> 0"
  shows "\<not> (annihilation_rate p differentiable (at (annihilation_zmin p)))"
proof
  assume "annihilation_rate p differentiable (at (annihilation_zmin p))"
  then obtain D where D: "(annihilation_rate p has_real_derivative D) (at (annihilation_zmin p))"
    by (auto simp: real_differentiable_def)
  have "(annihilation_rate p has_real_derivative D) (at_left (annihilation_zmin p))"
    using D by (rule has_field_derivative_at_within)
  then have "D = 0"
    using rate_left_of_zmin [of p] assms by (intro derivative_left_unique) simp_all
  have "(annihilation_rate p has_real_derivative D) (at_right (annihilation_zmin p))"
    using D by (rule has_field_derivative_at_within)
  then have "D = annihilation_parabola_slope p (annihilation_zmin p)"
    using rate_right_of_zmin [of p] assms by (intro derivative_right_unique) simp_all
  with \<open>D = 0\<close> slope_at_zmin_nonzero [OF assms] show False by simp
qed

lemma parabola_isCont:
  assumes "- 1 < annihilation_zmax p" "- 1 < z"
  shows "isCont (annihilation_parabola p) z"
  using parabola_deriv [OF assms] by (rule DERIV_isCont)

lemma log_ratio_isCont:
  assumes "- 1 < annihilation_zmax p" "- 1 < z"
  shows "isCont (annihilation_log_ratio p) z"
  using log_ratio_deriv [OF assms] by (rule DERIV_isCont)

lemma slope_isCont:
  assumes "- 1 < annihilation_zmax p" "- 1 < z"
  shows "isCont (annihilation_parabola_slope p) z"
proof -
  have "z + 1 \<noteq> 0" using assms by simp
  then show ?thesis
    unfolding annihilation_parabola_slope_def [abs_def]
    by (intro continuous_intros parabola_isCont [OF assms] log_ratio_isCont [OF assms])
qed

lemma rate_isCont:
  assumes "- 1 < annihilation_zmin p" "annihilation_zmin p \<le> annihilation_zmax p"
  shows "isCont (annihilation_rate p) z"
proof -
  let ?clamp = "\<lambda>z. min (annihilation_zmax p) (max (annihilation_zmin p) z)"
  have "- 1 < ?clamp z" using assms by simp
  then have "isCont (annihilation_parabola p) (?clamp z)"
    using assms by (intro parabola_isCont) simp_all
  moreover have "isCont ?clamp z"
    by (intro continuous_intros)
  ultimately have "isCont (\<lambda>z. annihilation_parabola p (?clamp z)) z"
    by (rule isCont_o2 [rotated])
  moreover have "annihilation_rate p = (\<lambda>z. annihilation_parabola p (?clamp z))"
    using rate_clamp [OF assms(2)] by (intro ext)
  ultimately show ?thesis by simp
qed

lemma rate_slope_isCont:
  assumes "- 1 < annihilation_zmax p" "- 1 < z"
  shows "isCont (annihilation_rate_slope p) z"
proof -
  have "- 1 < min z (annihilation_zmax p)" using assms by simp
  then have "isCont (annihilation_parabola_slope p) (min z (annihilation_zmax p))"
    using assms by (intro slope_isCont) simp_all
  moreover have "isCont (\<lambda>z. min z (annihilation_zmax p)) z"
    by (intro continuous_intros)
  ultimately show ?thesis
    unfolding annihilation_rate_slope_def [abs_def]
    by (rule isCont_o2 [rotated])
qed

lemma rate_deriv_above_zmin:
  assumes "- 1 < annihilation_zmin p" "annihilation_zmin p < annihilation_zmax p"
    and "annihilation_zmin p < z"
  shows "(annihilation_rate p has_real_derivative annihilation_rate_slope p z) (at z)"
proof -
  consider "z < annihilation_zmax p" | "z = annihilation_zmax p" | "annihilation_zmax p < z"
    by linarith
  then show ?thesis
  proof cases
    case 1
    have "(annihilation_parabola p has_real_derivative annihilation_parabola_slope p z) (at z)"
      using assms by (intro parabola_deriv) simp_all
    then have "(annihilation_rate p has_real_derivative annihilation_parabola_slope p z) (at z)"
    proof (rule has_field_derivative_transform_within_open)
      show "open {annihilation_zmin p <..< annihilation_zmax p}" by simp
      show "z \<in> {annihilation_zmin p <..< annihilation_zmax p}" using 1 assms by simp
      show "annihilation_parabola p y = annihilation_rate p y"
        if "y \<in> {annihilation_zmin p <..< annihilation_zmax p}" for y
        using that by (simp add: annihilation_rate_def)
    qed
    then show ?thesis using 1 by (simp add: annihilation_rate_slope_def)
  next
    case 2
    have zero: "annihilation_parabola_slope p (annihilation_zmax p) = 0"
      using assms by (intro slope_at_zmax) simp
    have "(annihilation_rate p has_real_derivative 0) (at_left (annihilation_zmax p))"
      using rate_left_of_zmax [OF assms(1,2)] by (simp add: zero)
    moreover have "(annihilation_rate p has_real_derivative 0) (at_right (annihilation_zmax p))"
      using assms by (intro rate_right_of_zmax) simp
    ultimately have "(annihilation_rate p has_real_derivative 0) (at (annihilation_zmax p))"
      by (rule derivative_from_both_sides)
    then show ?thesis using 2 by (simp add: annihilation_rate_slope_def zero)
  next
    case 3
    have zero: "annihilation_parabola_slope p (annihilation_zmax p) = 0"
      using assms by (intro slope_at_zmax) simp
    have "((\<lambda>y. annihilation_parabola p (annihilation_zmax p)) has_real_derivative 0) (at z)"
      by simp
    then have "(annihilation_rate p has_real_derivative 0) (at z)"
    proof (rule has_field_derivative_transform_within_open)
      show "open {annihilation_zmax p <..}" by simp
      show "z \<in> {annihilation_zmax p <..}" using 3 by simp
      show "annihilation_parabola p (annihilation_zmax p) = annihilation_rate p y"
        if "y \<in> {annihilation_zmax p <..}" for y
        using that by (simp add: annihilation_rate_def)
    qed
    then show ?thesis using 3 by (simp add: annihilation_rate_slope_def zero min_def)
  qed
qed


text \<open>
  Claim C4 as the specification states it: for \<open>zmin < zmax\<close> and a negative
  \<open>annihilation_variation\<close> the rate has a continuous first derivative at \<open>zmin\<close> and at
  \<open>zmax\<close>. On the parameter set \<open>example_heating_parameters\<close> (\<open>zmin = 30\<close>,
  \<open>zmax = 2500\<close>, curvature \<open>-1\<close>) the rate is not even differentiable at \<open>zmin\<close>: the
  parabola has its vertex at \<open>zmax\<close>, so it meets the constant region below \<open>zmin\<close> with a
  non-zero slope.
\<close>

theorem annihilation_rate_kink_at_zmin:
  "annihilation_zmin example_heating_parameters < annihilation_zmax example_heating_parameters
   \<and> annihilation_variation example_heating_parameters < 0
   \<and> \<not> (annihilation_rate example_heating_parameters differentiable
          (at (annihilation_zmin example_heating_parameters)))"
proof -
  have "\<not> (annihilation_rate example_heating_parameters differentiable
          (at (annihilation_zmin example_heating_parameters)))"
    by (rule rate_not_differentiable_at_zmin) (simp_all add: example_heating_parameters_def)
  then show ?thesis by (simp add: example_heating_parameters_def)
qed

text \<open>
  Claim C4, amended. For every parameter set with \<open>-1 < zmin < zmax\<close> the annihilation
  rate is continuous at \<open>zmin\<close> and at \<open>zmax\<close>; it is differentiable at every redshift
  above \<open>zmin\<close>, with a derivative that is 0 at \<open>zmax\<close> and continuous there (the parabola
  has its vertex at \<open>zmax\<close>); at \<open>zmin\<close> its derivative from below is 0 and its derivative
  from above is the slope of the parabola,
  \<open>F(zmin) * variation * 2 ln ((1 + zmin) / (1 + zmax)) / (1 + zmin)\<close>, which is not 0
  when \<open>annihilation\<close> and \<open>annihilation_variation\<close> are not 0: the rate is then not
  differentiable at \<open>zmin\<close>.
\<close>

theorem annihilation_rate_edges:
  assumes "- 1 < annihilation_zmin p" and "annihilation_zmin p < annihilation_zmax p"
  shows "isCont (annihilation_rate p) (annihilation_zmin p)
    \<and> isCont (annihilation_rate p) (annihilation_zmax p)
    \<and> (\<forall>z. annihilation_zmin p < z \<longrightarrow>
          (annihilation_rate p has_real_derivative annihilation_rate_slope p z) (at z))
    \<and> annihilation_rate_slope p (annihilation_zmax p) = 0
    \<and> isCont (annihilation_rate_slope p) (annihilation_zmax p)
    \<and> (annihilation_rate p has_real_derivative 0) (at_left (annihilation_zmin p))
    \<and> (annihilation_rate p has_real_derivative
          annihilation_parabola_slope p (annihilation_zmin p)) (at_right (annihilation_zmin p))
    \<and> (annihilation p \<noteq> 0 \<and> annihilation_variation p \<noteq> 0 \<longrightarrow>
          annihilation_parabola_slope p (annihilation_zmin p) \<noteq> 0
          \<and> \<not> (annihilation_rate p differentiable (at (annihilation_zmin p))))"
proof -
  have zmax: "- 1 < annihilation_zmax p" and le: "annihilation_zmin p \<le> annihilation_zmax p"
    using assms by simp_all
  have "isCont (annihilation_rate p) (annihilation_zmin p)"
    and "isCont (annihilation_rate p) (annihilation_zmax p)"
    using assms(1) le by (rule rate_isCont)+
  moreover have "\<forall>z. annihilation_zmin p < z \<longrightarrow>
          (annihilation_rate p has_real_derivative annihilation_rate_slope p z) (at z)"
    using rate_deriv_above_zmin [OF assms] by blast
  moreover have "annihilation_rate_slope p (annihilation_zmax p) = 0"
    using slope_at_zmax [OF zmax] by (simp add: annihilation_rate_slope_def)
  moreover have "isCont (annihilation_rate_slope p) (annihilation_zmax p)"
    using zmax zmax by (rule rate_slope_isCont)
  moreover have "(annihilation_rate p has_real_derivative 0) (at_left (annihilation_zmin p))"
    using assms(2) by (rule rate_left_of_zmin)
  moreover have "(annihilation_rate p has_real_derivative
          annihilation_parabola_slope p (annihilation_zmin p)) (at_right (annihilation_zmin p))"
    using assms by (rule rate_right_of_zmin)
  moreover have "annihilation p \<noteq> 0 \<and> annihilation_variation p \<noteq> 0 \<longrightarrow>
          annihilation_parabola_slope p (annihilation_zmin p) \<noteq> 0
          \<and> \<not> (annihilation_rate p differentiable (at (annihilation_zmin p)))"
    using slope_at_zmin_nonzero [OF assms] rate_not_differentiable_at_zmin [OF assms] by blast
  ultimately show ?thesis by blast
qed

text \<open>
  The amended statement on \<open>example_heating_parameters\<close>, whose window is
  \<open>[30, 2500]\<close>: both hypotheses hold, and so does every conjunct, the derivative inside
  the window being read at \<open>z = 1000\<close>.
\<close>

theorem annihilation_rate_edges_witness:
  "- 1 < annihilation_zmin example_heating_parameters
   \<and> annihilation_zmin example_heating_parameters < annihilation_zmax example_heating_parameters
   \<and> annihilation example_heating_parameters \<noteq> 0
   \<and> annihilation_variation example_heating_parameters \<noteq> 0
   \<and> (30 :: real) < 1000
   \<and> isCont (annihilation_rate example_heating_parameters) 30
   \<and> isCont (annihilation_rate example_heating_parameters) 2500
   \<and> (annihilation_rate example_heating_parameters has_real_derivative
         annihilation_rate_slope example_heating_parameters 1000) (at 1000)
   \<and> (annihilation_rate example_heating_parameters has_real_derivative 0) (at 2500)
   \<and> (annihilation_rate example_heating_parameters has_real_derivative 0) (at_left 30)
   \<and> annihilation_parabola_slope example_heating_parameters 30 \<noteq> 0
   \<and> \<not> (annihilation_rate example_heating_parameters differentiable (at 30))"
proof -
  let ?p = example_heating_parameters
  have zmin: "annihilation_zmin ?p = 30" and zmax: "annihilation_zmax ?p = 2500"
    and a: "annihilation ?p \<noteq> 0" and v: "annihilation_variation ?p \<noteq> 0"
    by (simp_all add: example_heating_parameters_def)
  have h1: "- 1 < annihilation_zmin ?p" and h2: "annihilation_zmin ?p < annihilation_zmax ?p"
    by (simp_all add: zmin zmax)
  note edges = annihilation_rate_edges [OF h1 h2]
  have "(annihilation_rate ?p has_real_derivative annihilation_rate_slope ?p 1000) (at 1000)"
    and "(annihilation_rate ?p has_real_derivative annihilation_rate_slope ?p 2500) (at 2500)"
    using edges by (simp_all add: zmin)
  moreover have "annihilation_rate_slope ?p 2500 = 0"
    using edges by (simp add: zmax)
  ultimately show ?thesis
    using edges a v h1 h2 by (simp add: zmin zmax)
qed

end
